theory Spec2Isabelle
  imports Complex_Main "HOL-Library.AList"
begin

section \<open>The Glue session connection (gluedbapi/connection.py)\<close>

subsection \<open>Session states, exceptions, dictionaries of the remote API\<close>

text \<open>
  The constants of class \<open>GlueSessionState\<close> are plain Python strings; a state read from
  the remote service is whatever string its reply carries under "Status", or \<open>None\<close>.
\<close>

abbreviation READY :: string where "READY \<equiv> ''READY''"
abbreviation FAILED :: string where "FAILED \<equiv> ''FAILED''"
abbreviation PROVISIONING :: string where "PROVISIONING \<equiv> ''PROVISIONING''"
abbreviation CLOSED :: string where "CLOSED \<equiv> ''CLOSED''"

text \<open>
  Exceptions as values. \<open>ClientError\<close> is botocore's error for a request the service
  rejects; \<open>OtherException\<close> stands for every other exception class a call of the boto3
  client or of a statement can raise (connection errors, parameter validation, ...), named
  by the string. \<open>FailedToConnectException\<close> is the class of dbt.exceptions that the
  specification calls \<open>ConnectFailure\<close>.
\<close>

datatype exn =
    ClientError
  | FailedToConnectException
  | TimeoutError
  | TypeError
  | OtherException string

text \<open>
  The reply of \<open>create_session\<close> and \<open>get_session\<close> is a dictionary that the code only
  reads through \<open>.get("Session", {})\<close> and then \<open>.get("Id")\<close> or \<open>.get("Status")\<close>: the
  key "Session" may be missing (\<open>None\<close>), and so may each of the two inner keys.
\<close>

record session_dict =
  Id :: "string option"
  Status :: "string option"

type_synonym response = "session_dict option"

record statement_dict =
  StatementId :: string
  State :: string

text \<open>The code submitted by a \<open>GlueStatement\<close>: the constant \<open>SQLPROXY\<close> or a source text.\<close>

datatype code = SQLPROXY | Source string

record credentials =
  cred_session_id :: "string option"
  extra_jars :: "string option"
  workers :: int
  worker_type :: string
  role_arn :: string
  region :: string
  database :: string
  session_provisionning_timeout_in_seconds :: int

record connection =
  credentials :: credentials
  priv_session :: "response option"
  priv_state :: "string option"

text \<open>The keyword arguments of the \<open>create_session\<close> call.\<close>

record create_request =
  req_Id :: string
  req_Role :: string
  req_DefaultArguments :: "(string \<times> string) list"
  req_Command :: "(string \<times> string) list"
  req_NumberOfWorkers :: int
  req_WorkerType :: string

text \<open>
  What the connection does to the outside world, in order: the calls of the boto3 client,
  the statements run through \<open>GlueStatement.execute\<close>, and the iterations of the
  \<open>wait(1)\<close> loop (one \<open>Tick\<close> each time the iterator yields).
\<close>

datatype event =
    CreateSession create_request
  | GetSession "string option"
  | DeleteSession string
  | GetStatements "string option"
  | CancelStatement "string option" string
  | ExecuteStatement string code
  | Tick

text \<open>
  The remote service and the other collaborators of the connection. Each reply may depend
  on everything done so far (the trace) and on the arguments of the call; a call either
  raises (\<open>Inl\<close>, or \<open>Some\<close> exception for a call without result) or returns.
  \<open>execute_reply\<close> is \<open>GlueStatement(...).execute()\<close> of gluedbapi/commons.py, whose
  result \<open>_init_session\<close> ignores. \<open>elapsed k\<close> is the elapsed time in seconds that the
  iterator \<open>wait(1)\<close> of the waiter package yields on iteration \<open>k\<close> (counted from 0) of
  a poll loop.
\<close>

record remote =
  create_session_reply :: "event list \<Rightarrow> create_request \<Rightarrow> exn + response"
  get_session_reply :: "event list \<Rightarrow> string option \<Rightarrow> exn + response"
  delete_session_reply :: "event list \<Rightarrow> string \<Rightarrow> exn option"
  get_statements_reply :: "event list \<Rightarrow> string option \<Rightarrow> exn + statement_dict list"
  cancel_statement_reply :: "event list \<Rightarrow> string option \<Rightarrow> string \<Rightarrow> exn option"
  execute_reply :: "event list \<Rightarrow> string \<Rightarrow> code \<Rightarrow> exn option"
  uuid4 :: "event list \<Rightarrow> string"
  elapsed :: "nat \<Rightarrow> real"

text \<open>Python's truth value of an optional string: \<open>None\<close> and the empty string are false.\<close>

definition truthy :: "string option \<Rightarrow> bool" where
  "truthy s = (case s of None \<Rightarrow> False | Some x \<Rightarrow> x \<noteq> [])"

subsection \<open>Properties \<open>session_id\<close> and \<open>state\<close>\<close>

definition session_id :: "connection \<Rightarrow> string option" where
  "session_id c =
     (case priv_session c of
        None \<Rightarrow> None
      | Some r \<Rightarrow> (case r of None \<Rightarrow> None | Some s \<Rightarrow> Id s))"

text \<open>The value \<open>session.get("Status")\<close> of a reply of \<open>get_session\<close>.\<close>

definition status_of :: "response \<Rightarrow> string option" where
  "status_of r = (case r of None \<Rightarrow> None | Some s \<Rightarrow> Status s)"

definition state :: "remote \<Rightarrow> connection \<Rightarrow> event list \<Rightarrow> string option \<times> connection \<times> event list" where
  "state R c tr =
     (if priv_state c \<in> set [Some FAILED, Some READY] then (priv_state c, c, tr)
      else
        (case get_session_reply R tr (session_id c) of
           Inr r \<Rightarrow>
             (status_of r, c\<lparr>priv_state := status_of r\<rparr>, tr @ [GetSession (session_id c)])
         | Inl e \<Rightarrow>
             (Some CLOSED, c\<lparr>priv_state := Some CLOSED\<rparr>, tr @ [GetSession (session_id c)])))"

subsection \<open>\<open>cancel\<close>, \<open>cancel_statement\<close>, \<open>close_session\<close>\<close>

definition cancel_statement :: "remote \<Rightarrow> connection \<Rightarrow> event list \<Rightarrow> string \<Rightarrow> (exn + unit) \<times> event list" where
  "cancel_statement R c tr statement_id =
     (case cancel_statement_reply R tr (session_id c) statement_id of
        Some e \<Rightarrow> (Inl e, tr @ [CancelStatement (session_id c) statement_id])
      | None \<Rightarrow> (Inr (), tr @ [CancelStatement (session_id c) statement_id]))"

text \<open>The \<open>for\<close> loop of \<open>cancel\<close>; an exception of \<open>cancel_statement\<close> leaves the loop.\<close>

fun cancel_loop :: "remote \<Rightarrow> connection \<Rightarrow> event list \<Rightarrow> statement_dict list \<Rightarrow> (exn + unit) \<times> event list" where
  "cancel_loop R c tr [] = (Inr (), tr)"
| "cancel_loop R c tr (statement # rest) =
     (if State statement \<in> set [''RUNNING''] then
        (case cancel_statement R c tr (StatementId statement) of
           (Inl e, tr') \<Rightarrow> (Inl e, tr')
         | (Inr u, tr') \<Rightarrow> cancel_loop R c tr' rest)
      else cancel_loop R c tr rest)"

definition cancel :: "remote \<Rightarrow> connection \<Rightarrow> event list \<Rightarrow> (exn + unit) \<times> event list" where
  "cancel R c tr =
     (case get_statements_reply R tr (session_id c) of
        Inl e \<Rightarrow> (Inl e, tr @ [GetStatements (session_id c)])
      | Inr statements \<Rightarrow> cancel_loop R c (tr @ [GetStatements (session_id c)]) statements)"

definition close_session :: "remote \<Rightarrow> connection \<Rightarrow> event list \<Rightarrow> (exn + unit) \<times> connection \<times> event list" where
  "close_session R c tr =
     (if truthy (cred_session_id (credentials c)) then
        (case cred_session_id (credentials c) of
           Some sid \<Rightarrow>
             (case delete_session_reply R tr sid of
                Some e \<Rightarrow> (Inl e, c, tr @ [DeleteSession sid])
              | None \<Rightarrow> (Inr (), c, tr @ [DeleteSession sid]))
         | None \<Rightarrow> (Inr (), c, tr))
      else (Inr (), c, tr))"

subsection \<open>\<open>_start_session\<close>, \<open>_init_session\<close>, \<open>connect\<close>\<close>

definition session_args :: "credentials \<Rightarrow> (string \<times> string) list" where
  "session_args cr =
     (case extra_jars cr of
        Some jars \<Rightarrow>
          [(''--enable-glue-datacatalog'', ''true''),
           (''--spark.sql.crossJoin.enabled'', ''true''),
           (''--extra-jars'', jars)]
      | None \<Rightarrow>
          [(''--enable-glue-datacatalog'', ''true''),
           (''--spark.sql.crossJoin.enabled'', ''true'')])"

definition session_request :: "remote \<Rightarrow> connection \<Rightarrow> event list \<Rightarrow> create_request" where
  "session_request R c tr =
     \<lparr>req_Id = ''dbt-glue-'' @ uuid4 R tr,
      req_Role = role_arn (credentials c),
      req_DefaultArguments = session_args (credentials c),
      req_Command = [(''Name'', ''glueetl''), (''PythonVersion'', ''3'')],
      req_NumberOfWorkers = workers (credentials c),
      req_WorkerType = worker_type (credentials c)\<rparr>"

text \<open>
  The loop \<open>for elapsed in wait(1)\<close>, from iteration \<open>k\<close> on. Each iteration reads the
  property \<open>state\<close> once, returns \<open>self._session\<close> when it is READY, and otherwise
  compares the elapsed time with the timeout. The iterator never ends, so the loop is left
  only by the \<open>return\<close> or the \<open>raise\<close>; a loop that does neither has the value \<open>None\<close>.
\<close>

partial_function (option) poll ::
  "remote \<Rightarrow> nat \<Rightarrow> connection \<Rightarrow> event list \<Rightarrow>
     ((exn + response option) \<times> connection \<times> event list) option" where
  "poll R k c tr =
     (case state R c (tr @ [Tick]) of
        (s, c1, tr1) \<Rightarrow>
          if s = Some READY then Some (Inr (priv_session c1), c1, tr1)
          else if real_of_int (session_provisionning_timeout_in_seconds (credentials c1)) < elapsed R k
          then Some (Inl TimeoutError, c1, tr1)
          else poll R (Suc k) c1 tr1)"

declare poll.simps [code]

text \<open>
  \<open>_start_session\<close>. Only \<open>ClientError\<close> is caught. The handler sets the cached state
  to FAILED and executes \<open>raise dbterrors.FailedToConnectException\<close>: the class itself
  is raised, so Python instantiates it without arguments, and since its constructor (that
  of dbt's \<open>RuntimeException\<close>) requires the argument \<open>msg\<close>, what is raised is a
  \<open>TypeError\<close>.
\<close>

definition start_session ::
  "remote \<Rightarrow> connection \<Rightarrow> event list \<Rightarrow>
     ((exn + response option) \<times> connection \<times> event list) option" where
  "start_session R c tr =
     (case create_session_reply R tr (session_request R c tr) of
        Inr r \<Rightarrow>
          poll R 0 (c\<lparr>priv_session := Some r\<rparr>) (tr @ [CreateSession (session_request R c tr)])
      | Inl e \<Rightarrow>
          if e = ClientError
          then Some (Inl TypeError, c\<lparr>priv_state := Some FAILED\<rparr>,
                     tr @ [CreateSession (session_request R c tr)])
          else Some (Inl e, c, tr @ [CreateSession (session_request R c tr)]))"

text \<open>
  \<open>_init_session\<close>: the second debug line concatenates a string with \<open>self.session_id\<close>,
  which raises \<open>TypeError\<close> when that is \<open>None\<close>; then the two statements are executed,
  and an exception of either is not caught.
\<close>

definition use_database :: "string \<Rightarrow> code" where
  "use_database db = Source (''spark.sql('' @ [CHR 0x27] @ ''use '' @ db @ [CHR 0x27] @ '')'')"

definition init_session :: "remote \<Rightarrow> connection \<Rightarrow> event list \<Rightarrow> (exn + unit) \<times> event list" where
  "init_session R c tr =
     (case session_id c of
        None \<Rightarrow> (Inl TypeError, tr)
      | Some sid \<Rightarrow>
          (case execute_reply R tr sid SQLPROXY of
             Some e \<Rightarrow> (Inl e, tr @ [ExecuteStatement sid SQLPROXY])
           | None \<Rightarrow>
               (case execute_reply R (tr @ [ExecuteStatement sid SQLPROXY]) sid
                       (use_database (database (credentials c))) of
                  Some e \<Rightarrow>
                    (Inl e, tr @ [ExecuteStatement sid SQLPROXY,
                                  ExecuteStatement sid (use_database (database (credentials c)))])
                | None \<Rightarrow>
                    (Inr (), tr @ [ExecuteStatement sid SQLPROXY,
                                   ExecuteStatement sid (use_database (database (credentials c)))]))))"

text \<open>
  The first part of \<open>connect\<close>, up to the call of \<open>_init_session\<close>. With a session id in
  the credentials the property \<open>state\<close> is read twice: once for the debug line, which
  raises \<open>TypeError\<close> when the state is \<open>None\<close>, and once for the comparison with CLOSED.
\<close>

definition existing_session :: "connection \<Rightarrow> connection" where
  "existing_session c =
     c\<lparr>priv_session := Some (Some \<lparr>Id = cred_session_id (credentials c), Status = None\<rparr>)\<rparr>"

definition acquire_session ::
  "remote \<Rightarrow> connection \<Rightarrow> event list \<Rightarrow> ((exn + unit) \<times> connection \<times> event list) option" where
  "acquire_session R c tr =
     (if \<not> truthy (cred_session_id (credentials c)) then
        (case start_session R c tr of
           None \<Rightarrow> None
         | Some (Inl e, c1, tr1) \<Rightarrow> Some (Inl e, c1, tr1)
         | Some (Inr s, c1, tr1) \<Rightarrow> Some (Inr (), c1, tr1))
      else
        (case state R (existing_session c) tr of
           (None, c1, tr1) \<Rightarrow> Some (Inl TypeError, c1, tr1)
         | (Some logged, c1, tr1) \<Rightarrow>
             (case state R c1 tr1 of
                (s, c2, tr2) \<Rightarrow>
                  if s = Some CLOSED then
                    (case start_session R c2 tr2 of
                       None \<Rightarrow> None
                     | Some (Inl e, c3, tr3) \<Rightarrow> Some (Inl e, c3, tr3)
                     | Some (Inr s', c3, tr3) \<Rightarrow> Some (Inr (), c3\<lparr>priv_session := s'\<rparr>, tr3))
                  else Some (Inr (), c2, tr2))))"

definition connect ::
  "remote \<Rightarrow> connection \<Rightarrow> event list \<Rightarrow>
     ((exn + string option) \<times> connection \<times> event list) option" where
  "connect R c tr =
     (case acquire_session R c tr of
        None \<Rightarrow> None
      | Some (Inl e, c1, tr1) \<Rightarrow> Some (Inl e, c1, tr1)
      | Some (Inr u, c1, tr1) \<Rightarrow>
          (case init_session R c1 tr1 of
             (Inl e, tr2) \<Rightarrow> Some (Inl e, c1, tr2)
           | (Inr u', tr2) \<Rightarrow>
               Some (Inr (session_id c1),
                     c1\<lparr>credentials := (credentials c1)\<lparr>cred_session_id := session_id c1\<rparr>\<rparr>,
                     tr2)))"

text \<open>The number of iterations of poll loops in a trace, and its \<open>create_session\<close> calls.\<close>

definition ticks :: "event list \<Rightarrow> nat" where
  "ticks tr = count_list tr Tick"

fun is_create :: "event \<Rightarrow> bool" where
  "is_create (CreateSession r) = True"
| "is_create e = False"

definition creations :: "event list \<Rightarrow> event list" where
  "creations tr = filter is_create tr"

section \<open>The helper installed in the remote runtime (\<open>SQLPROXY\<close>, class \<open>SqlWrapper2\<close>)\<close>

text \<open>
  The values handed to \<open>json.dumps\<close>. A dictionary keeps its keys in insertion order.
\<close>

datatype json =
    JNull
  | JString string
  | JInt int
  | JList "json list"
  | JDict "(string \<times> json) list"

text \<open>
  A dataframe as the helper reads it: the fields of \<open>df.schema\<close>, and the rows of
  \<open>df.rdd.collect()\<close>, each read by field name (\<open>record[f.name]\<close>). \<open>spark.sql\<close>
  depends on the statements run before in the session and may raise.
\<close>

record field =
  field_name :: string
  dataType :: string

type_synonym row = "string \<Rightarrow> json"

record dataframe =
  schema_fields :: "field list"
  collect :: "row list"

type_synonym spark_sql = "string list \<Rightarrow> string \<Rightarrow> exn + dataframe"

text \<open>The runtime: the statements given to \<open>spark.sql\<close> so far, and the lines printed.\<close>

record runtime =
  executed :: "string list"
  printed :: "json list"

definition null_schema_envelope :: "string \<Rightarrow> json" where
  "null_schema_envelope sql =
     JDict [(''type'', JString ''results''), (''sql'', JString sql),
            (''schema'', JNull), (''results'', JNull)]"

definition record_of :: "field list \<Rightarrow> row \<Rightarrow> json" where
  "record_of fs r =
     JDict [(''type'', JString ''record''),
            (''data'', JDict (fold (\<lambda>f d. AList.update (field_name f) (r (field_name f)) d) fs []))]"

definition description_of :: "field list \<Rightarrow> json" where
  "description_of fs =
     JList (map (\<lambda>f. JDict [(''name'', JString (field_name f)), (''type'', JString (dataType f))]) fs)"

definition rowcount_envelope :: "dataframe \<Rightarrow> json" where
  "rowcount_envelope df =
     JDict [(''type'', JString ''results''),
            (''rowcount'', JInt (int (length (collect df)))),
            (''results'', JList (map (record_of (schema_fields df)) (collect df))),
            (''description'', description_of (schema_fields df))]"

text \<open>
  The body of \<open>execute\<close> below the test for ";" (lines 171 to 187). With an empty schema
  and \<open>output\<close> set, the null-schema envelope is printed and control goes on to the lines
  that build and print the rowcount envelope; without \<open>output\<close> the method returns there.
\<close>

definition execute_one :: "spark_sql \<Rightarrow> runtime \<Rightarrow> string \<Rightarrow> bool \<Rightarrow> (exn + json option) \<times> runtime" where
  "execute_one spark rt sql output =
     (case spark (executed rt) sql of
        Inl e \<Rightarrow> (Inl e, rt\<lparr>executed := executed rt @ [sql]\<rparr>)
      | Inr df \<Rightarrow>
          if length (schema_fields df) = 0 then
            (if output then
               (Inr None,
                rt\<lparr>executed := executed rt @ [sql],
                   printed := printed rt @ [null_schema_envelope sql, rowcount_envelope df]\<rparr>)
             else
               (Inr (Some (null_schema_envelope sql)), rt\<lparr>executed := executed rt @ [sql]\<rparr>))
          else
            (if output then
               (Inr None,
                rt\<lparr>executed := executed rt @ [sql],
                   printed := printed rt @ [rowcount_envelope df]\<rparr>)
             else
               (Inr (Some (rowcount_envelope df)), rt\<lparr>executed := executed rt @ [sql]\<rparr>)))"

text \<open>Python's \<open>str.split(sep)\<close> for a separator of one character.\<close>

fun split :: "char \<Rightarrow> string \<Rightarrow> string list" where
  "split sep [] = [[]]"
| "split sep (ch # rest) =
     (if ch = sep then [] # split sep rest
      else (case split sep rest of
              [] \<Rightarrow> [[ch]]
            | q # qs \<Rightarrow> (ch # q) # qs))"

text \<open>
  The loop over \<open>queries\<close>; \<open>final\<close> is \<open>queries[-1]\<close>. The calls \<open>cls.execute(q, ...)\<close>
  are on pieces of the split, which hold no ";" and so run the body \<open>execute_one\<close>.
\<close>

fun run_queries ::
  "spark_sql \<Rightarrow> runtime \<Rightarrow> string \<Rightarrow> json option \<Rightarrow> string list \<Rightarrow> (exn + json option) \<times> runtime" where
  "run_queries spark rt final response [] = (Inr response, rt)"
| "run_queries spark rt final response (q # qs) =
     (if length q \<noteq> 0 then
        (if q = final then
           (case execute_one spark rt q True of
              (Inl e, rt') \<Rightarrow> (Inl e, rt')
            | (Inr r, rt') \<Rightarrow> run_queries spark rt' final r qs)
         else
           (case execute_one spark rt q False of
              (Inl e, rt') \<Rightarrow> (Inl e, rt')
            | (Inr r, rt') \<Rightarrow> run_queries spark rt' final response qs))
      else run_queries spark rt final response qs)"

definition execute :: "spark_sql \<Rightarrow> runtime \<Rightarrow> string \<Rightarrow> bool \<Rightarrow> (exn + json option) \<times> runtime" where
  "execute spark rt sql output =
     (if CHR '';'' \<in> set sql then
        run_queries spark rt (last (split (CHR '';'') sql)) None (split (CHR '';'') sql)
      else execute_one spark rt sql output)"

section \<open>\<open>GlueAdapter.get_columns_in_relation\<close> (impl.py)\<close>

definition HUDI_METADATA_COLUMNS :: "string list" where
  "HUDI_METADATA_COLUMNS =
     [''_hoodie_commit_time'', ''_hoodie_commit_seqno'', ''_hoodie_record_key'',
      ''_hoodie_partition_path'', ''_hoodie_file_name'']"

text \<open>
  dbt's \<open>Column\<close>, with the two fields the adapter sets; its property \<open>name\<close> is the
  field \<open>column\<close>. A relation gives its schema and identifier.
\<close>

record Column =
  column :: string
  dtype :: string

definition name :: "Column \<Rightarrow> string" where
  "name x = column x"

record relation =
  rel_schema :: string
  rel_identifier :: string

text \<open>
  The cursor: \<open>cursor.execute(code)\<close> followed by \<open>cursor.fetchall()\<close> raises or gives
  the records, each a sequence read at positions 0 and 1.
\<close>

type_synonym cursor = "string \<Rightarrow> exn + string list list"

text \<open>
  The loop inside the \<open>try\<close>: a record with fewer than two entries raises
  \<open>IndexError\<close>, which the \<open>except\<close> catches, so the columns appended so far remain.
\<close>

fun append_columns :: "Column list \<Rightarrow> string list list \<Rightarrow> Column list" where
  "append_columns columns [] = columns"
| "append_columns columns (r # rest) =
     (case r of
        r0 # r1 # others \<Rightarrow> append_columns (columns @ [\<lparr>column = r0, dtype = r1\<rparr>]) rest
      | [r0] \<Rightarrow> columns
      | [] \<Rightarrow> columns)"

definition get_columns_in_relation :: "cursor \<Rightarrow> relation \<Rightarrow> Column list" where
  "get_columns_in_relation cur rel =
     filter (\<lambda>x. name x \<notin> set HUDI_METADATA_COLUMNS)
       (case cur (''describe '' @ rel_schema rel @ ''.'' @ rel_identifier rel) of
          Inl e \<Rightarrow> []
        | Inr records \<Rightarrow> append_columns [] records)"

section \<open>Notions used to state the properties\<close>

text \<open>The ids of the statements of a list that are RUNNING, in order.\<close>

definition running :: "statement_dict list \<Rightarrow> string list" where
  "running statements = map StatementId (filter (\<lambda>s. State s = ''RUNNING'') statements)"


text \<open>
  The state that \<open>connect\<close> compares with CLOSED when the credentials hold a session id:
  the second of its two reads of the property \<open>state\<close>.
\<close>

definition observed_state :: "remote \<Rightarrow> connection \<Rightarrow> event list \<Rightarrow> string option" where
  "observed_state R c tr =
     (case state R (existing_session c) tr of (logged, c1, tr1) \<Rightarrow> fst (state R c1 tr1))"


subsection \<open>Concrete inputs\<close>

definition example_credentials :: credentials where
  "example_credentials =
     \<lparr>cred_session_id = None, extra_jars = None, workers = 2, worker_type = ''G.1X'',
      role_arn = ''arn:aws:iam::1:role/glue'', region = ''eu-west-1'', database = ''analytics'',
      session_provisionning_timeout_in_seconds = 1\<rparr>"

definition fresh_connection :: connection where
  "fresh_connection = \<lparr>credentials = example_credentials, priv_session = None, priv_state = None\<rparr>"

definition example_statements :: "statement_dict list" where
  "example_statements =
     [\<lparr>StatementId = ''1'', State = ''RUNNING''\<rparr>, \<lparr>StatementId = ''2'', State = ''AVAILABLE''\<rparr>,
      \<lparr>StatementId = ''3'', State = ''RUNNING''\<rparr>, \<lparr>StatementId = ''4'', State = ''WAITING''\<rparr>]"

text \<open>
  A service that answers every \<open>create_session\<close> and every \<open>get_session\<close> in the same
  way, runs every statement, and whose poll iterator reports 0, 1, 2, ... seconds: the
  first iteration of \<open>wait(1)\<close> is immediate and each later one follows a sleep of one
  second.
\<close>

definition service :: "(create_request \<Rightarrow> exn + response) \<Rightarrow> (exn + response) \<Rightarrow> remote" where
  "service created got =
     \<lparr>create_session_reply = (\<lambda>tr req. created req),
      get_session_reply = (\<lambda>tr sid. got),
      delete_session_reply = (\<lambda>tr sid. None),
      get_statements_reply = (\<lambda>tr sid. Inr example_statements),
      cancel_statement_reply = (\<lambda>tr sid i. None),
      execute_reply = (\<lambda>tr sid cd. None),
      uuid4 = (\<lambda>tr. ''0001''),
      elapsed = real\<rparr>"


text \<open>A service whose statements raise once five things have been done.\<close>

definition failing_statements :: "remote \<Rightarrow> remote" where
  "failing_statements R =
     R\<lparr>execute_reply :=
         (\<lambda>tr sid cd. if 5 \<le> length tr then Some (OtherException ''StatementError'') else None)\<rparr>"

text \<open>A service that refuses to cancel the statement "1".\<close>

definition failing_cancel :: "remote \<Rightarrow> remote" where
  "failing_cancel R =
     R\<lparr>cancel_statement_reply := (\<lambda>tr sid i. if i = ''1'' then Some ClientError else None)\<rparr>"

text \<open>
  The request that \<open>fresh_connection\<close> sends, the connection after a first \<open>connect\<close>
  that created the session \<open>sid\<close>, and the trace of that \<open>connect\<close>.
\<close>

definition example_request :: create_request where
  "example_request =
     \<lparr>req_Id = ''dbt-glue-0001'', req_Role = ''arn:aws:iam::1:role/glue'',
      req_DefaultArguments =
        [(''--enable-glue-datacatalog'', ''true''), (''--spark.sql.crossJoin.enabled'', ''true'')],
      req_Command = [(''Name'', ''glueetl''), (''PythonVersion'', ''3'')],
      req_NumberOfWorkers = 2, req_WorkerType = ''G.1X''\<rparr>"

definition connected :: "string \<Rightarrow> connection" where
  "connected sid =
     \<lparr>credentials = example_credentials\<lparr>cred_session_id := Some sid\<rparr>,
      priv_session = Some (Some \<lparr>Id = Some sid, Status = Some PROVISIONING\<rparr>),
      priv_state = Some READY\<rparr>"

definition first_trace :: "string \<Rightarrow> event list" where
  "first_trace sid =
     [CreateSession example_request, Tick, GetSession (Some sid),
      ExecuteStatement sid SQLPROXY, ExecuteStatement sid (use_database ''analytics'')]"

definition accepted :: "string \<Rightarrow> create_request \<Rightarrow> exn + response" where
  "accepted status req = Inr (Some \<lparr>Id = Some (req_Id req), Status = Some status\<rparr>)"

text \<open>A \<open>create_session\<close> that raises, and one whose reply carries the empty string as id.\<close>

definition raising :: "exn \<Rightarrow> create_request \<Rightarrow> exn + response" where
  "raising e req = Inl e"

definition unnamed :: "create_request \<Rightarrow> exn + response" where
  "unnamed req = Inr (Some \<lparr>Id = Some [], Status = Some PROVISIONING\<rparr>)"

definition reported :: "string \<Rightarrow> exn + response" where
  "reported status = Inr (Some \<lparr>Id = None, Status = Some status\<rparr>)"

text \<open>
  A \<open>spark.sql\<close> for which a statement that begins with "select" gives one column and
  one row, and any other statement a dataframe without columns.
\<close>

definition one_row :: dataframe where
  "one_row = \<lparr>schema_fields = [\<lparr>field_name = ''1'', dataType = ''IntegerType''\<rparr>],
              collect = [\<lambda>n. JInt 1]\<rparr>"

definition no_columns :: dataframe where
  "no_columns = \<lparr>schema_fields = [], collect = []\<rparr>"

definition example_spark :: spark_sql where
  "example_spark history sql =
     (if take 6 (dropWhile (\<lambda>ch. ch = CHR '' '') sql) = ''select'' then Inr one_row
      else Inr no_columns)"

definition empty_runtime :: runtime where
  "empty_runtime = \<lparr>executed = [], printed = []\<rparr>"

definition example_cursor :: cursor where
  "example_cursor cd =
     Inr [[''id'', ''bigint''], [''_hoodie_commit_time'', ''string''],
          [''amount'', ''double'', ''a comment''], [''_hoodie_file_name'', ''string'']]"

definition example_relation :: relation where
  "example_relation = \<lparr>rel_schema = ''sales'', rel_identifier = ''orders''\<rparr>"

section \<open>Properties of the connection\<close>

subsection \<open>Auxiliary facts\<close>

lemma ticks_append [simp]: "ticks (xs @ ys) = ticks xs + ticks ys"
  by (induction xs) (auto simp: ticks_def)

lemma ticks_Nil [simp]: "ticks [] = 0"
  by (simp add: ticks_def)

lemma ticks_Cons [simp]: "ticks (e # es) = (if e = Tick then Suc (ticks es) else ticks es)"
  by (simp add: ticks_def)

lemma creations_append [simp]: "creations (xs @ ys) = creations xs @ creations ys"
  by (simp add: creations_def)

lemma creations_Nil [simp]: "creations [] = []"
  by (simp add: creations_def)

lemma creations_Cons [simp]:
  "creations (e # es) = (if is_create e then e # creations es else creations es)"
  by (simp add: creations_def)

lemma state_frame:
  assumes "state R c tr = (s, c', tr')"
  shows "credentials c' = credentials c" "priv_session c' = priv_session c"
        "priv_state c' = s" "ticks tr' = ticks tr" "creations tr' = creations tr"
        "session_id c' = session_id c"
  using assms by (auto simp: state_def session_id_def split: if_splits sum.splits)




subsection \<open>The property \<open>state\<close>\<close>

text \<open>
  C1. When the cached state is READY or FAILED, reading \<open>state\<close> returns it and changes
  neither the connection nor the trace: no \<open>get_session\<close> call is made. With any other
  cached state, \<open>None\<close> included, exactly one \<open>get_session\<close> call is made for the current
  session id and its outcome is cached and returned: CLOSED when the call raises, whatever
  the exception, and the status of the reply otherwise.
\<close>

theorem state_cached_or_fetched:
  "(priv_state c = Some READY \<or> priv_state c = Some FAILED \<longrightarrow> state R c tr = (priv_state c, c, tr)) \<and>
   (priv_state c \<noteq> Some READY \<and> priv_state c \<noteq> Some FAILED \<longrightarrow>
      (\<exists>s. state R c tr = (s, c\<lparr>priv_state := s\<rparr>, tr @ [GetSession (session_id c)]) \<and>
           (isl (get_session_reply R tr (session_id c)) \<longrightarrow> s = Some CLOSED) \<and>
           (\<forall>r. get_session_reply R tr (session_id c) = Inr r \<longrightarrow> s = status_of r)))"
  by (auto simp: state_def split: sum.splits)

theorem state_cached_or_fetched_witness:
  "state (service (accepted PROVISIONING) (Inl (OtherException ''EntityNotFoundException'')))
         (fresh_connection\<lparr>priv_state := Some READY\<rparr>) []
     = (Some READY, fresh_connection\<lparr>priv_state := Some READY\<rparr>, []) \<and>
   state (service (accepted PROVISIONING) (Inl (OtherException ''EntityNotFoundException'')))
         fresh_connection []
     = (Some CLOSED, fresh_connection\<lparr>priv_state := Some CLOSED\<rparr>, [GetSession None])"
  using state_cached_or_fetched
          [of "fresh_connection\<lparr>priv_state := Some READY\<rparr>"
              "service (accepted PROVISIONING) (Inl (OtherException ''EntityNotFoundException''))" "[]"]
        state_cached_or_fetched
          [of fresh_connection
              "service (accepted PROVISIONING) (Inl (OtherException ''EntityNotFoundException''))" "[]"]
  by (auto simp: fresh_connection_def service_def session_id_def)

subsection \<open>\<open>close_session\<close>\<close>

text \<open>
  C7. With a session id recorded in the credentials (a non-empty string),
  \<open>close_session\<close> makes one \<open>delete_session\<close> call for that id. With none (\<open>None\<close> or
  the empty string) it makes no call, changes nothing and returns normally, and so does a
  second call right after it.
\<close>

theorem close_session_idempotent:
  "(truthy (cred_session_id (credentials c)) \<longrightarrow>
      (\<exists>sid r. cred_session_id (credentials c) = Some sid \<and>
                close_session R c tr = (r, c, tr @ [DeleteSession sid]))) \<and>
   (\<not> truthy (cred_session_id (credentials c)) \<longrightarrow>
      close_session R c tr = (Inr (), c, tr) \<and>
      (case close_session R c tr of (r, c', tr') \<Rightarrow> close_session R c' tr') = (Inr (), c, tr))"
  by (auto simp: close_session_def truthy_def split: option.splits)

theorem close_session_idempotent_witness:
  "close_session (service (accepted READY) (reported READY))
     (fresh_connection\<lparr>credentials := example_credentials\<lparr>cred_session_id := Some ''s-1''\<rparr>\<rparr>) []
     = (Inr (), fresh_connection\<lparr>credentials := example_credentials\<lparr>cred_session_id := Some ''s-1''\<rparr>\<rparr>,
        [DeleteSession ''s-1'']) \<and>
   (case close_session (service (accepted READY) (reported READY)) fresh_connection [] of
      (r, c', tr') \<Rightarrow> close_session (service (accepted READY) (reported READY)) c' tr')
     = (Inr (), fresh_connection, [])"
  using close_session_idempotent
          [of "fresh_connection\<lparr>credentials := example_credentials\<lparr>cred_session_id := Some ''s-1''\<rparr>\<rparr>"
              "service (accepted READY) (reported READY)" "[]"]
        close_session_idempotent [of fresh_connection "service (accepted READY) (reported READY)" "[]"]
  by (auto simp: fresh_connection_def example_credentials_def service_def truthy_def close_session_def)

text \<open>
  C9. \<open>close_session\<close> returns the connection as it was, so the session id recorded in
  the credentials is unchanged. Its only effect is on the trace: nothing, or one
  \<open>delete_session\<close> call for the recorded id, which is still recorded afterwards.
\<close>

theorem close_session_keeps_session_id:
  "close_session R c tr = (r, c', tr') \<Longrightarrow>
     c' = c \<and> cred_session_id (credentials c') = cred_session_id (credentials c) \<and>
     (tr' = tr \<or> (\<exists>sid. tr' = tr @ [DeleteSession sid] \<and> cred_session_id (credentials c') = Some sid))"
  by (auto simp: close_session_def truthy_def split: option.splits if_splits)

theorem close_session_keeps_session_id_witness:
  "close_session (service (accepted READY) (reported READY))
     (fresh_connection\<lparr>credentials := example_credentials\<lparr>cred_session_id := Some ''s-2''\<rparr>\<rparr>) []
     = (Inr (), fresh_connection\<lparr>credentials := example_credentials\<lparr>cred_session_id := Some ''s-2''\<rparr>\<rparr>,
        [DeleteSession ''s-2'']) \<and>
   cred_session_id (credentials
     (fresh_connection\<lparr>credentials := example_credentials\<lparr>cred_session_id := Some ''s-2''\<rparr>\<rparr>)) = Some ''s-2''"
proof -
  have run: "close_session (service (accepted READY) (reported READY))
     (fresh_connection\<lparr>credentials := example_credentials\<lparr>cred_session_id := Some ''s-2''\<rparr>\<rparr>) []
     = (Inr (), fresh_connection\<lparr>credentials := example_credentials\<lparr>cred_session_id := Some ''s-2''\<rparr>\<rparr>,
        [DeleteSession ''s-2''])"
    by (simp add: close_session_def truthy_def service_def fresh_connection_def)
  from close_session_keeps_session_id [OF run] run show ?thesis
    by simp
qed

subsection \<open>\<open>connect\<close>: reuse of the session\<close>

lemma init_session_frame:
  assumes "init_session R c tr = (r, tr')"
  shows "ticks tr' = ticks tr" "creations tr' = creations tr"
  using assms by (auto simp: init_session_def split: option.splits)

lemma init_session_runs:
  assumes "session_id c = Some sid" "\<forall>tr' s cd. execute_reply R tr' s cd = None"
  shows "fst (init_session R c tr) = Inr ()"
  using assms by (simp add: init_session_def)

lemma connect_success:
  assumes "connect R c tr = Some (Inr sid, c1, tr1)"
  shows "cred_session_id (credentials c1) = sid" "session_id c1 = sid" "sid \<noteq> None"
proof -
  obtain ra c' tr' where acq: "acquire_session R c tr = Some (ra, c', tr')"
    using assms by (cases "acquire_session R c tr") (auto simp: connect_def)
  obtain ri tr2 where i: "init_session R c' tr' = (ri, tr2)"
    by (cases "init_session R c' tr'") auto
  have ra: "ra = Inr ()" using assms acq by (cases ra) (simp_all add: connect_def)
  have ri: "ri = Inr ()" using assms acq ra i by (cases ri) (simp_all add: connect_def)
  have res: "sid = session_id c'"
            "c1 = c'\<lparr>credentials := (credentials c')\<lparr>cred_session_id := session_id c'\<rparr>\<rparr>"
    using assms acq ra i ri by (auto simp: connect_def)
  show "cred_session_id (credentials c1) = sid" using res by simp
  show "session_id c1 = sid" using res by (simp add: session_id_def)
  show "sid \<noteq> None" using i ri res(1) by (auto simp: init_session_def split: option.splits)
qed

lemma connect_reuse:
  assumes tr: "truthy (cred_session_id (credentials c))"
      and nc: "observed_state R c tr \<noteq> Some CLOSED"
  shows "\<exists>r c2 tr2. connect R c tr = Some (r, c2, tr2) \<and> creations tr2 = creations tr \<and>
           (r = Inr (cred_session_id (credentials c)) \<or> isl r) \<and>
           cred_session_id (credentials c2) = cred_session_id (credentials c) \<and>
           (fst (state R (existing_session c) tr) \<noteq> None \<and>
            (\<forall>tr' s cd. execute_reply R tr' s cd = None) \<longrightarrow>
              r = Inr (cred_session_id (credentials c)))"
proof -
  obtain s1 c1 tr1 where s1: "state R (existing_session c) tr = (s1, c1, tr1)"
    by (cases "state R (existing_session c) tr") auto
  obtain s2 c2 tr2 where s2: "state R c1 tr1 = (s2, c2, tr2)"
    by (cases "state R c1 tr1") auto
  have s2n: "s2 \<noteq> Some CLOSED" using nc s1 s2 by (simp add: observed_state_def)
  have cr1: "credentials c1 = credentials c" "creations tr1 = creations tr"
    using state_frame(1,5)[OF s1] by (simp_all add: existing_session_def)
  have cr2: "credentials c2 = credentials c" "creations tr2 = creations tr"
    using state_frame(1,5)[OF s2] cr1 by simp_all
  have sid2: "session_id c2 = cred_session_id (credentials c)"
    using state_frame(6)[OF s1] state_frame(6)[OF s2]
    by (simp add: existing_session_def session_id_def)
  show ?thesis
  proof (cases s1)
    case None
    then have "connect R c tr = Some (Inl TypeError, c1, tr1)"
      using tr s1 by (simp add: connect_def acquire_session_def)
    then show ?thesis using cr1 s1 None by simp
  next
    case (Some logged)
    have acq: "acquire_session R c tr = Some (Inr (), c2, tr2)"
      using tr s1 s2 Some s2n by (simp add: acquire_session_def)
    obtain r3 tr3 where i: "init_session R c2 tr2 = (r3, tr3)"
      by (cases "init_session R c2 tr2") auto
    have f3: "creations tr3 = creations tr" using init_session_frame(2)[OF i] cr2 by simp
    show ?thesis
    proof (cases r3)
      case (Inl e)
      then have co: "connect R c tr = Some (Inl e, c2, tr3)" using acq i by (simp add: connect_def)
      have "\<not> (\<forall>tr' s cd. execute_reply R tr' s cd = None)"
      proof
        assume a: "\<forall>tr' s cd. execute_reply R tr' s cd = None"
        from tr sid2 obtain x where "session_id c2 = Some x"
          by (auto simp: truthy_def split: option.splits)
        from init_session_runs[OF this a, of tr2] i Inl show False by simp
      qed
      then show ?thesis using co f3 cr2 by simp
    next
      case (Inr u)
      then have "connect R c tr = Some (Inr (session_id c2),
                     c2\<lparr>credentials := (credentials c2)\<lparr>cred_session_id := session_id c2\<rparr>\<rparr>, tr3)"
        using acq i by (simp add: connect_def)
      then show ?thesis using f3 cr2 sid2 by simp
    qed
  qed
qed

text \<open>
  C2, as amended. Let \<open>connect\<close> have succeeded. Then the id it returned is the one
  recorded in the credentials. If that id is a non-empty string and the state that a
  second \<open>connect\<close> right after it compares with CLOSED is not CLOSED, the second
  \<open>connect\<close> ends without a \<open>create_session\<close> call and with the id still recorded; its
  result is the same session id or an exception, and it is the same session id when the
  first state read reports a status and no initialization statement raises.
\<close>

theorem connect_twice:
  assumes "connect R c tr = Some (Inr sid, c1, tr1)"
  shows "cred_session_id (credentials c1) = sid \<and>
         (truthy sid \<and> observed_state R c1 tr1 \<noteq> Some CLOSED \<longrightarrow>
            (\<exists>r c2 tr2. connect R c1 tr1 = Some (r, c2, tr2) \<and> creations tr2 = creations tr1 \<and>
               (r = Inr sid \<or> isl r) \<and> cred_session_id (credentials c2) = sid \<and>
               (fst (state R (existing_session c1) tr1) \<noteq> None \<and>
                (\<forall>tr' s cd. execute_reply R tr' s cd = None) \<longrightarrow> r = Inr sid)))"
proof (intro conjI impI)
  show p: "cred_session_id (credentials c1) = sid" using connect_success(1)[OF assms] .
  assume h: "truthy sid \<and> observed_state R c1 tr1 \<noteq> Some CLOSED"
  then have t: "truthy (cred_session_id (credentials c1))" using p by simp
  from h have n: "observed_state R c1 tr1 \<noteq> Some CLOSED" by simp
  show "\<exists>r c2 tr2. connect R c1 tr1 = Some (r, c2, tr2) \<and> creations tr2 = creations tr1 \<and>
               (r = Inr sid \<or> isl r) \<and> cred_session_id (credentials c2) = sid \<and>
               (fst (state R (existing_session c1) tr1) \<noteq> None \<and>
                (\<forall>tr' s cd. execute_reply R tr' s cd = None) \<longrightarrow> r = Inr sid)"
    using p connect_reuse[OF t n] by simp
qed

theorem connect_twice_witness:
  "\<exists>c2 tr2.
     connect (service (accepted PROVISIONING) (reported READY)) fresh_connection []
       = Some (Inr (Some ''dbt-glue-0001''), connected ''dbt-glue-0001'', first_trace ''dbt-glue-0001'') \<and>
     cred_session_id (credentials (connected ''dbt-glue-0001'')) = Some ''dbt-glue-0001'' \<and>
     connect (service (accepted PROVISIONING) (reported READY))
             (connected ''dbt-glue-0001'') (first_trace ''dbt-glue-0001'')
       = Some (Inr (Some ''dbt-glue-0001''), c2, tr2) \<and>
     creations tr2 = creations (first_trace ''dbt-glue-0001'')"
proof -
  let ?R = "service (accepted PROVISIONING) (reported READY)"
  let ?c1 = "connected ''dbt-glue-0001''"
  let ?tr1 = "first_trace ''dbt-glue-0001''"
  have first: "connect ?R fresh_connection [] = Some (Inr (Some ''dbt-glue-0001''), ?c1, ?tr1)"
    by (simp add: connect_def acquire_session_def start_session_def truthy_def init_session_def
         connected_def first_trace_def example_request_def
         fresh_connection_def example_credentials_def service_def accepted_def reported_def
         poll.simps state_def session_request_def session_args_def session_id_def status_of_def)
  have nonempty: "truthy (Some ''dbt-glue-0001'')" by (simp add: truthy_def)
  have cached: "observed_state ?R ?c1 ?tr1 \<noteq> Some CLOSED"
    by (simp add: observed_state_def existing_session_def state_def connected_def)
  have reported: "fst (state ?R (existing_session ?c1) ?tr1) \<noteq> None"
    by (simp add: existing_session_def state_def connected_def)
  have runs: "\<forall>tr' s cd. execute_reply ?R tr' s cd = None"
    by (simp add: service_def)
  from connect_twice [OF first] nonempty cached reported runs first show ?thesis
    by blast
qed

text \<open>
  The claim as stated does not hold. First, a service whose statements begin to raise
  after the first \<open>connect\<close>: the state read by the second \<open>connect\<close> is the cached READY,
  not CLOSED, and the second \<open>connect\<close> raises the exception of the first initialization
  statement instead of returning the id. Second, a service that returns the empty string
  as session id: the first \<open>connect\<close> succeeds, the recorded id is false in Python, and
  the second \<open>connect\<close> makes a second \<open>create_session\<close> call though no state was CLOSED.
\<close>

theorem connect_twice_counterexample:
  "connect (failing_statements (service (accepted PROVISIONING) (reported READY))) fresh_connection []
     = Some (Inr (Some ''dbt-glue-0001''), connected ''dbt-glue-0001'', first_trace ''dbt-glue-0001'') \<and>
   observed_state (failing_statements (service (accepted PROVISIONING) (reported READY)))
      (connected ''dbt-glue-0001'') (first_trace ''dbt-glue-0001'') = Some READY \<and>
   connect (failing_statements (service (accepted PROVISIONING) (reported READY)))
      (connected ''dbt-glue-0001'') (first_trace ''dbt-glue-0001'')
     = Some (Inl (OtherException ''StatementError''),
             (connected ''dbt-glue-0001'')
               \<lparr>priv_session := Some (Some \<lparr>Id = Some ''dbt-glue-0001'', Status = None\<rparr>)\<rparr>,
             first_trace ''dbt-glue-0001'' @ [ExecuteStatement ''dbt-glue-0001'' SQLPROXY]) \<and>
   connect (service unnamed (reported READY))
      fresh_connection []
     = Some (Inr (Some []), connected [], first_trace []) \<and>
   connect (service unnamed (reported READY))
      (connected []) (first_trace [])
     = Some (Inr (Some []), connected [],
             first_trace [] @ [CreateSession example_request, Tick,
                ExecuteStatement [] SQLPROXY, ExecuteStatement [] (use_database ''analytics'')])"
proof (intro conjI)
  show "connect (failing_statements (service (accepted PROVISIONING) (reported READY))) fresh_connection []
     = Some (Inr (Some ''dbt-glue-0001''), connected ''dbt-glue-0001'', first_trace ''dbt-glue-0001'')"
    by (simp add: connect_def acquire_session_def start_session_def truthy_def init_session_def
         failing_statements_def connected_def first_trace_def example_request_def unnamed_def
         fresh_connection_def example_credentials_def service_def accepted_def reported_def
         poll.simps state_def session_request_def session_args_def session_id_def status_of_def)
  show "observed_state (failing_statements (service (accepted PROVISIONING) (reported READY)))
      (connected ''dbt-glue-0001'') (first_trace ''dbt-glue-0001'') = Some READY"
    by (simp add: observed_state_def existing_session_def connected_def state_def)
  show "connect (failing_statements (service (accepted PROVISIONING) (reported READY)))
      (connected ''dbt-glue-0001'') (first_trace ''dbt-glue-0001'')
     = Some (Inl (OtherException ''StatementError''),
             (connected ''dbt-glue-0001'')
               \<lparr>priv_session := Some (Some \<lparr>Id = Some ''dbt-glue-0001'', Status = None\<rparr>)\<rparr>,
             first_trace ''dbt-glue-0001'' @ [ExecuteStatement ''dbt-glue-0001'' SQLPROXY])"
    by (simp add: connect_def acquire_session_def truthy_def init_session_def existing_session_def
         failing_statements_def connected_def first_trace_def example_request_def
         example_credentials_def service_def state_def session_id_def)
  show "connect (service unnamed (reported READY))
      fresh_connection []
     = Some (Inr (Some []), connected [], first_trace [])"
    by (simp add: connect_def acquire_session_def start_session_def truthy_def init_session_def
         connected_def first_trace_def example_request_def unnamed_def
         fresh_connection_def example_credentials_def service_def accepted_def reported_def
         poll.simps state_def session_request_def session_args_def session_id_def status_of_def)
  show "connect (service unnamed (reported READY))
      (connected []) (first_trace [])
     = Some (Inr (Some []), connected [],
             first_trace [] @ [CreateSession example_request, Tick,
                ExecuteStatement [] SQLPROXY, ExecuteStatement [] (use_database ''analytics'')])"
    by (simp add: connect_def acquire_session_def start_session_def truthy_def init_session_def
         connected_def first_trace_def example_request_def unnamed_def
         example_credentials_def service_def accepted_def reported_def
         poll.simps state_def session_request_def session_args_def session_id_def status_of_def)
qed

subsection \<open>\<open>connect\<close>: the provisioning timeout\<close>










subsection \<open>\<open>connect\<close>: a rejected \<open>create_session\<close>\<close>

lemma start_session_rejected:
  assumes "create_session_reply R tr (session_request R c tr) = Inl ClientError"
  shows "start_session R c tr =
           Some (Inl TypeError, c\<lparr>priv_state := Some FAILED\<rparr>,
                 tr @ [CreateSession (session_request R c tr)])"
  using assms by (simp add: start_session_def)

lemma acquire_rejected:
  assumes rej: "\<forall>tr' req. create_session_reply R tr' req = Inl ClientError"
  shows "\<exists>r c' tr'. acquire_session R c tr = Some (r, c', tr') \<and> ticks tr' = ticks tr \<and>
           (creations tr' = creations tr \<or>
            (r = Inl TypeError \<and> priv_state c' = Some FAILED \<and>
             length (creations tr') = Suc (length (creations tr))))"
proof (cases "truthy (cred_session_id (credentials c))")
  case False
  have "start_session R c tr =
           Some (Inl TypeError, c\<lparr>priv_state := Some FAILED\<rparr>,
                 tr @ [CreateSession (session_request R c tr)])"
    using rej by (intro start_session_rejected) simp
  then have "acquire_session R c tr =
           Some (Inl TypeError, c\<lparr>priv_state := Some FAILED\<rparr>,
                 tr @ [CreateSession (session_request R c tr)])"
    using False by (simp add: acquire_session_def)
  then show ?thesis by simp
next
  case True
  obtain s1 c1 tr1 where s1: "state R (existing_session c) tr = (s1, c1, tr1)"
    by (cases "state R (existing_session c) tr") auto
  obtain s2 c2 tr2 where s2: "state R c1 tr1 = (s2, c2, tr2)"
    by (cases "state R c1 tr1") auto
  have t1: "ticks tr1 = ticks tr" "creations tr1 = creations tr"
    using state_frame(4,5)[OF s1] by simp_all
  have t2: "ticks tr2 = ticks tr" "creations tr2 = creations tr"
    using state_frame(4,5)[OF s2] t1 by simp_all
  show ?thesis
  proof (cases s1)
    case None
    then have "acquire_session R c tr = Some (Inl TypeError, c1, tr1)"
      using True s1 by (simp add: acquire_session_def)
    then show ?thesis using t1 by simp
  next
    case (Some logged)
    show ?thesis
    proof (cases "s2 = Some CLOSED")
      case False
      then have "acquire_session R c tr = Some (Inr (), c2, tr2)"
        using True s1 s2 Some by (simp add: acquire_session_def)
      then show ?thesis using t2 by simp
    next
      case closed: True
      have "start_session R c2 tr2 =
           Some (Inl TypeError, c2\<lparr>priv_state := Some FAILED\<rparr>,
                 tr2 @ [CreateSession (session_request R c2 tr2)])"
        using rej by (intro start_session_rejected) simp
      then have "acquire_session R c tr =
           Some (Inl TypeError, c2\<lparr>priv_state := Some FAILED\<rparr>,
                 tr2 @ [CreateSession (session_request R c2 tr2)])"
        using True s1 s2 Some closed by (simp add: acquire_session_def)
      then show ?thesis using t2 by simp
    qed
  qed
qed

text \<open>
  C4. What \<open>connect\<close> does when the \<open>create_session\<close> call raises. Without a recorded
  session id: for \<open>ClientError\<close> the cached state becomes FAILED, the poll loop is not
  entered and the creation is not retried, but the exception that leaves \<open>connect\<close> is
  \<open>TypeError\<close>, not \<open>FailedToConnectException\<close>; any other exception leaves \<open>connect\<close>
  unchanged, and the connection is as it was. For every connection, when each
  \<open>create_session\<close> call raises \<open>ClientError\<close>, \<open>connect\<close> ends without an iteration of
  the poll loop, and either no \<open>create_session\<close> call was made, or exactly one was made,
  the cached state is FAILED and \<open>TypeError\<close> is raised.
\<close>

theorem connect_create_raises:
  "(\<not> truthy (cred_session_id (credentials c)) \<and>
    create_session_reply R tr (session_request R c tr) = Inl e \<longrightarrow>
      connect R c tr =
        Some (if e = ClientError
              then (Inl TypeError, c\<lparr>priv_state := Some FAILED\<rparr>,
                    tr @ [CreateSession (session_request R c tr)])
              else (Inl e, c, tr @ [CreateSession (session_request R c tr)]))) \<and>
   ((\<forall>tr' req. create_session_reply R tr' req = Inl ClientError) \<longrightarrow>
      (\<exists>r c' tr'. connect R c tr = Some (r, c', tr') \<and> ticks tr' = ticks tr \<and>
           (creations tr' = creations tr \<or>
            (r = Inl TypeError \<and> priv_state c' = Some FAILED \<and>
             length (creations tr') = Suc (length (creations tr))))))"
proof (intro conjI impI)
  assume "\<not> truthy (cred_session_id (credentials c)) \<and>
    create_session_reply R tr (session_request R c tr) = Inl e"
  then show "connect R c tr =
        Some (if e = ClientError
              then (Inl TypeError, c\<lparr>priv_state := Some FAILED\<rparr>,
                    tr @ [CreateSession (session_request R c tr)])
              else (Inl e, c, tr @ [CreateSession (session_request R c tr)]))"
    by (simp add: connect_def acquire_session_def start_session_def)
next
  assume rej: "\<forall>tr' req. create_session_reply R tr' req = Inl ClientError"
  from acquire_rejected[OF rej, of c tr] obtain r c' tr' where
    a: "acquire_session R c tr = Some (r, c', tr')" and tk: "ticks tr' = ticks tr" and
    d: "creations tr' = creations tr \<or>
            (r = Inl TypeError \<and> priv_state c' = Some FAILED \<and>
             length (creations tr') = Suc (length (creations tr)))"
    by blast
  show "\<exists>r c' tr'. connect R c tr = Some (r, c', tr') \<and> ticks tr' = ticks tr \<and>
           (creations tr' = creations tr \<or>
            (r = Inl TypeError \<and> priv_state c' = Some FAILED \<and>
             length (creations tr') = Suc (length (creations tr))))"
  proof (cases r)
    case (Inl x)
    then have "connect R c tr = Some (Inl x, c', tr')" using a by (simp add: connect_def)
    then show ?thesis using tk d Inl by blast
  next
    case (Inr u)
    then have same: "creations tr' = creations tr" using d by auto
    obtain r2 tr2 where i: "init_session R c' tr' = (r2, tr2)"
      by (cases "init_session R c' tr'") auto
    have f: "ticks tr2 = ticks tr" "creations tr2 = creations tr"
      using init_session_frame[OF i] tk same by simp_all
    show ?thesis
    proof (cases r2)
      case (Inl x)
      then have "connect R c tr = Some (Inl x, c', tr2)" using a Inr i by (simp add: connect_def)
      then show ?thesis using f by blast
    next
      case r2: (Inr u')
      then have "connect R c tr = Some (Inr (session_id c'),
                     c'\<lparr>credentials := (credentials c')\<lparr>cred_session_id := session_id c'\<rparr>\<rparr>, tr2)"
        using a Inr i by (simp add: connect_def)
      then show ?thesis using f by blast
    qed
  qed
qed

text \<open>
  The service rejects the request with \<open>ClientError\<close>: the state is FAILED and \<open>connect\<close>
  raises \<open>TypeError\<close>. The endpoint cannot be reached: that exception leaves \<open>connect\<close>,
  and the cached state stays \<open>None\<close>.
\<close>

theorem connect_create_raises_witness:
  "connect (service (raising ClientError) (reported PROVISIONING)) fresh_connection [] =
     Some (Inl TypeError, fresh_connection\<lparr>priv_state := Some FAILED\<rparr>,
           [CreateSession example_request]) \<and>
   connect (service (raising (OtherException ''EndpointConnectionError'')) (reported PROVISIONING))
           fresh_connection [] =
     Some (Inl (OtherException ''EndpointConnectionError''), fresh_connection,
           [CreateSession example_request]) \<and>
   priv_state fresh_connection = None"
  using connect_create_raises
          [of fresh_connection "service (raising ClientError) (reported PROVISIONING)" "[]" ClientError]
        connect_create_raises
          [of fresh_connection
              "service (raising (OtherException ''EndpointConnectionError'')) (reported PROVISIONING)"
              "[]" "OtherException ''EndpointConnectionError''"]
  by (simp add: service_def raising_def truthy_def fresh_connection_def example_credentials_def
        session_request_def session_args_def example_request_def)

subsection \<open>\<open>cancel\<close>\<close>

lemma cancel_loop_trace:
  "cancel_loop R c tr statements = (r, tr') \<Longrightarrow>
     \<exists>issued rest. tr' = tr @ map (CancelStatement (session_id c)) issued \<and>
        running statements = issued @ rest \<and> (r = Inr () \<longrightarrow> rest = [])"
proof (induction statements arbitrary: tr)
  case Nil
  then show ?case by (simp add: running_def)
next
  case (Cons s ss)
  show ?case
  proof (cases "State s = ''RUNNING''")
    case False
    with Cons.prems have "cancel_loop R c tr ss = (r, tr')" by simp
    from Cons.IH[OF this] False show ?thesis by (simp add: running_def)
  next
    case True
    show ?thesis
    proof (cases "cancel_statement_reply R tr (session_id c) (StatementId s)")
      case (Some e)
      with True Cons.prems have "tr' = tr @ [CancelStatement (session_id c) (StatementId s)]" "r = Inl e"
        by (auto simp: cancel_statement_def)
      then show ?thesis using True
        by (intro exI[of _ "[StatementId s]"] exI[of _ "running ss"]) (simp add: running_def)
    next
      case None
      with True Cons.prems
      have "cancel_loop R c (tr @ [CancelStatement (session_id c) (StatementId s)]) ss = (r, tr')"
        by (auto simp: cancel_statement_def)
      from Cons.IH[OF this] obtain issued rest where
        "tr' = (tr @ [CancelStatement (session_id c) (StatementId s)]) @ map (CancelStatement (session_id c)) issued"
        "running ss = issued @ rest" "r = Inr () \<longrightarrow> rest = []" by blast
      then show ?thesis using True
        by (intro exI[of _ "StatementId s # issued"] exI[of _ rest]) (simp add: running_def)
    qed
  qed
qed

lemma cancel_loop_no_raise:
  "\<forall>tr' i. cancel_statement_reply R tr' (session_id c) i = None \<Longrightarrow>
     fst (cancel_loop R c tr statements) = Inr ()"
  by (induction statements arbitrary: tr) (auto simp: cancel_statement_def)

text \<open>
  C8, as amended. Let \<open>get_statements\<close> return a list for the current session. The calls
  that \<open>cancel\<close> makes after it are \<open>cancel_statement\<close> calls for RUNNING statements only,
  in the order of the list and at most one for each entry: the ids cancelled are an
  initial part of the ids of the RUNNING entries. They are all of them, one call for each
  RUNNING entry, when \<open>cancel\<close> returns normally, which it does when no \<open>cancel_statement\<close>
  call raises.
\<close>

theorem cancel_running_only:
  assumes "get_statements_reply R tr (session_id c) = Inr statements"
      and "cancel R c tr = (r, tr')"
  shows "\<exists>issued rest.
           tr' = tr @ GetStatements (session_id c) # map (CancelStatement (session_id c)) issued \<and>
           running statements = issued @ rest \<and>
           (r = Inr () \<longrightarrow> issued = running statements) \<and>
           ((\<forall>t i. cancel_statement_reply R t (session_id c) i = None) \<longrightarrow>
              r = Inr () \<and> issued = running statements)"
proof -
  have loop: "cancel_loop R c (tr @ [GetStatements (session_id c)]) statements = (r, tr')"
    using assms by (simp add: cancel_def)
  from cancel_loop_trace[OF loop] obtain issued rest where
    t: "tr' = (tr @ [GetStatements (session_id c)]) @ map (CancelStatement (session_id c)) issued" and
    p: "running statements = issued @ rest" and e: "r = Inr () \<longrightarrow> rest = []"
    by blast
  have q: "(\<forall>t i. cancel_statement_reply R t (session_id c) i = None) \<longrightarrow> r = Inr ()"
    using cancel_loop_no_raise[of R c "tr @ [GetStatements (session_id c)]" statements] loop by simp
  show ?thesis
    by (rule exI[of _ issued], rule exI[of _ rest]) (use t p e q in auto)
qed

theorem cancel_running_only_witness:
  "cancel (service (accepted READY) (reported READY)) fresh_connection [] =
     (Inr (), [GetStatements None, CancelStatement None ''1'', CancelStatement None ''3''])"
proof -
  let ?R = "service (accepted READY) (reported READY)"
  have l: "get_statements_reply ?R [] (session_id fresh_connection) = Inr example_statements"
    by (simp add: service_def)
  obtain r tr' where c: "cancel ?R fresh_connection [] = (r, tr')"
    by (cases "cancel ?R fresh_connection []") auto
  have n: "\<forall>t i. cancel_statement_reply ?R t (session_id fresh_connection) i = None"
    by (simp add: service_def)
  have ids: "running example_statements = [''1'', ''3'']"
    by (simp add: running_def example_statements_def)
  have sid: "session_id fresh_connection = None"
    by (simp add: session_id_def fresh_connection_def)
  from cancel_running_only [OF l c] n ids sid c show ?thesis
    by auto
qed

text \<open>
  The claim as stated does not hold when a \<open>cancel_statement\<close> call raises: the exception
  leaves the loop, and the RUNNING statement "3" that comes after the refused "1" gets no
  call.
\<close>

theorem cancel_running_only_counterexample:
  "cancel (failing_cancel (service (accepted READY) (reported READY))) fresh_connection [] =
     (Inl ClientError, [GetStatements None, CancelStatement None ''1'']) \<and>
   running example_statements = [''1'', ''3'']"
  by (simp add: cancel_def cancel_statement_def failing_cancel_def service_def session_id_def
        fresh_connection_def example_statements_def running_def)

section \<open>Properties of \<open>get_columns_in_relation\<close>\<close>

text \<open>
  C10. Whatever the cursor gives for the describe statement (records, or an exception),
  no column of the result carries one of the five Hudi metadata names.
\<close>

theorem get_columns_without_hudi_metadata:
  "x \<in> set (get_columns_in_relation cur rel) \<Longrightarrow>
     name x \<notin> {''_hoodie_commit_time'', ''_hoodie_commit_seqno'', ''_hoodie_record_key'',
                ''_hoodie_partition_path'', ''_hoodie_file_name''}"
  by (auto simp: get_columns_in_relation_def HUDI_METADATA_COLUMNS_def)

theorem get_columns_without_hudi_metadata_witness:
  "get_columns_in_relation example_cursor example_relation =
     [\<lparr>column = ''id'', dtype = ''bigint''\<rparr>, \<lparr>column = ''amount'', dtype = ''double''\<rparr>] \<and>
   name \<lparr>column = ''amount'', dtype = ''double''\<rparr> \<notin>
     {''_hoodie_commit_time'', ''_hoodie_commit_seqno'', ''_hoodie_record_key'',
      ''_hoodie_partition_path'', ''_hoodie_file_name''}"
proof -
  have run: "get_columns_in_relation example_cursor example_relation =
     [\<lparr>column = ''id'', dtype = ''bigint''\<rparr>, \<lparr>column = ''amount'', dtype = ''double''\<rparr>]"
    by (simp add: get_columns_in_relation_def example_cursor_def HUDI_METADATA_COLUMNS_def name_def)
  have "\<lparr>column = ''amount'', dtype = ''double''\<rparr> \<in> set (get_columns_in_relation example_cursor example_relation)"
    by (simp add: run)
  from get_columns_without_hudi_metadata [OF this] run show ?thesis
    by simp
qed

section \<open>Properties of the remote helper\<close>

lemma split_pieces: "q \<in> set (split sep s) \<Longrightarrow> sep \<notin> set q"
proof (induction s arbitrary: q)
  case Nil
  then show ?case by simp
next
  case (Cons ch rest)
  then show ?case
    by (cases "split sep rest") (auto split: if_splits)
qed

lemma execute_piece:
  "q \<in> set (split (CHR '';'') sql) \<Longrightarrow> execute spark rt q output = execute_one spark rt q output"
  using split_pieces[of q "CHR '';''" sql] by (simp add: execute_def)

text \<open>
  C6. For a statement without ";" whose dataframe has an empty schema, \<open>execute\<close> with
  \<open>output\<close> set prints two envelopes: the null-schema one, and after it the rowcount
  envelope of the same dataframe, since the branch that prints does not return.
\<close>

theorem execute_empty_schema_prints_both:
  assumes "CHR '';'' \<notin> set sql" and "spark (executed rt) sql = Inr df" and "schema_fields df = []"
  shows "execute spark rt sql True =
           (Inr None,
            rt\<lparr>executed := executed rt @ [sql],
               printed := printed rt @ [null_schema_envelope sql, rowcount_envelope df]\<rparr>)"
  using assms by (simp add: execute_def execute_one_def)

theorem execute_empty_schema_prints_both_witness:
  "execute example_spark empty_runtime ''create database d'' True =
     (Inr None,
      \<lparr>executed = [''create database d''],
       printed = [JDict [(''type'', JString ''results''), (''sql'', JString ''create database d''),
                        (''schema'', JNull), (''results'', JNull)],
                  JDict [(''type'', JString ''results''), (''rowcount'', JInt 0),
                        (''results'', JList []), (''description'', JList [])]]\<rparr>)"
  using execute_empty_schema_prints_both
          [of "''create database d''" example_spark empty_runtime no_columns]
  by (simp add: example_spark_def empty_runtime_def no_columns_def null_schema_envelope_def
        rowcount_envelope_def description_of_def)

text \<open>
  C5. Three batches. With a ";" at the end, every statement runs without output and
  nothing is printed, since \<open>queries[-1]\<close> is the empty piece. When an earlier statement has
  the text of the last one, it prints too. When the last statement has an empty schema,
  it prints two envelopes.
\<close>

theorem execute_batch_output:
  "execute example_spark empty_runtime ''create temp view v as select 1; select * from v;'' True =
     (Inr None,
      \<lparr>executed = [''create temp view v as select 1'', '' select * from v''], printed = []\<rparr>) \<and>
   execute example_spark empty_runtime ''select 1;select 1'' True =
     (Inr None,
      \<lparr>executed = [''select 1'', ''select 1''],
       printed = [rowcount_envelope one_row, rowcount_envelope one_row]\<rparr>) \<and>
   execute example_spark empty_runtime ''select 1;create database d'' True =
     (Inr None,
      \<lparr>executed = [''select 1'', ''create database d''],
       printed = [null_schema_envelope ''create database d'', rowcount_envelope no_columns]\<rparr>)"
  by (simp add: execute_def execute_one_def example_spark_def empty_runtime_def one_row_def
        no_columns_def)

text \<open>The batch of the specification, without a ";" at the end, prints one envelope.\<close>

lemma execute_batch_example:
  "execute example_spark empty_runtime ''create temp view v as select 1; select * from v'' True =
     (Inr None,
      \<lparr>executed = [''create temp view v as select 1'', '' select * from v''],
       printed = [rowcount_envelope one_row]\<rparr>)"
  by (simp add: execute_def execute_one_def example_spark_def empty_runtime_def one_row_def
        no_columns_def)

text \<open>
  What the loop does achieve: when the last piece of the split is not empty and no earlier
  piece has its text, the earlier pieces print nothing, and the batch ends as the last
  piece run with \<open>output\<close> set does (unless an earlier statement raised).
\<close>

lemma execute_one_silent: "printed (snd (execute_one spark rt q False)) = printed rt"
  by (simp add: execute_one_def split: sum.splits)

lemma run_queries_silent:
  "final \<notin> set qs \<Longrightarrow> printed (snd (run_queries spark rt final response qs)) = printed rt"
proof (induction qs arbitrary: rt response)
  case Nil
  then show ?case by simp
next
  case (Cons q qs)
  obtain r rt1 where e: "execute_one spark rt q False = (r, rt1)"
    by (cases "execute_one spark rt q False") auto
  have p: "printed rt1 = printed rt" using execute_one_silent[of spark rt q] e by simp
  from Cons.prems have ne: "q \<noteq> final" "final \<notin> set qs" by auto
  show ?case
  proof (cases "length q \<noteq> 0")
    case False
    then show ?thesis using Cons.IH[OF ne(2)] by simp
  next
    case True
    show ?thesis
    proof (cases r)
      case (Inl x)
      then show ?thesis using True ne e p by simp
    next
      case (Inr y)
      then show ?thesis using True ne e p Cons.IH[OF ne(2), of rt1 response] by simp
    qed
  qed
qed

lemma run_queries_last:
  assumes "final \<noteq> []" and "final \<notin> set qs"
  shows "run_queries spark rt final response (qs @ [final]) =
           (case run_queries spark rt final response qs of
              (Inl e, rt1) \<Rightarrow> (Inl e, rt1)
            | (Inr r, rt1) \<Rightarrow> execute_one spark rt1 final True)"
  using assms(2)
proof (induction qs arbitrary: rt response)
  case Nil
  show ?case using assms(1) by (simp split: prod.splits sum.splits)
next
  case (Cons q qs)
  from Cons.prems have ne: "q \<noteq> final" "final \<notin> set qs" by auto
  show ?case using ne Cons.IH[OF ne(2)] by (simp split: prod.splits sum.splits)
qed

lemma execute_batch_distinct:
  assumes "CHR '';'' \<in> set sql" and "split (CHR '';'') sql = qs @ [final]"
      and "final \<noteq> []" and "final \<notin> set qs"
  shows "\<exists>r rt1. run_queries spark rt final None qs = (r, rt1) \<and> printed rt1 = printed rt \<and>
           execute spark rt sql output =
             (case r of Inl e \<Rightarrow> (Inl e, rt1) | Inr u \<Rightarrow> execute_one spark rt1 final True)"
proof -
  obtain r rt1 where q: "run_queries spark rt final None qs = (r, rt1)"
    by (cases "run_queries spark rt final None qs") auto
  have p: "printed rt1 = printed rt" using run_queries_silent[OF assms(4), of spark rt None] q by simp
  have "execute spark rt sql output = run_queries spark rt final None (qs @ [final])"
    using assms(1,2) by (simp add: execute_def)
  also have "\<dots> = (case r of Inl e \<Rightarrow> (Inl e, rt1) | Inr u \<Rightarrow> execute_one spark rt1 final True)"
    using run_queries_last[OF assms(3,4), of spark rt None] q by (simp split: sum.splits)
  finally show ?thesis using q p by blast
qed

end
